theory Spec2Isabelle
  imports Main "HOL-Library.Word" "HOL-Library.Monad_Syntax"
begin

section \<open>The net/rpc codecs of rpc.go\<close>

text \<open>
  rpc.go layers two RPC codecs over a connection and an Encoder/Decoder pair bound to it:
  the basic codec (goRpcCodec) and the codec of the msgpack RPC specification
  (specRpcCodec). The connection, the Encoder and the Decoder are collaborators of the
  file, so the model takes them as the fields of the codec and threads the state they act
  on (the connection, with whatever the Encoder and the Decoder keep) through every call.
\<close>

subsection \<open>Data\<close>

type_synonym byte = "8 word"

text \<open>
  rpc.Request has the fields ServiceMethod and Seq; rpc.Response has the same two and
  Error. The second record extends the first, so that the field names of the source serve
  both.
\<close>

record Request =
  ServiceMethod :: string
  Seq :: "64 word"

record Response = Request +
  Error :: string

text \<open>
  The errors that rpc.go builds itself (its three fmt.Errorf calls), and the errors handed
  up by the connection, the Encoder or the Decoder, known by their message only.
\<close>

datatype error =
    NoBytesRead  \<comment> \<open>Couldn't read array descriptor: No bytes read\<close>
  | UnexpectedArrayDescriptor byte byte  \<comment> \<open>expecting, received\<close>
  | UnexpectedByteDescriptor byte byte  \<comment> \<open>expecting, received\<close>
  | External string

text \<open>
  A value of type interface\{\}, as far as rpc.go builds or passes one: nil, a byte, a
  uint32, a uint64, a string, a slice of such values, a request or response envelope, or
  a value of the caller (a body) that the codec never looks into. Passed to Decode, a
  value stands for a pointer to a cell that holds it.
\<close>

datatype 'b val =
    NilV
  | ByteV byte
  | Uint32V "32 word"
  | Uint64V "64 word"
  | StringV string
  | SliceV "'b val list"
  | RequestV Request
  | ResponseV Response
  | OtherV 'b

text \<open>
  The struct rpcCodec: rwc, dec and enc, each by the methods rpc.go calls.
  \<^item> \<open>rwc_Read c k s\<close> is rwc.Read on a buffer of \<open>k\<close> bytes: the bytes read (their
    number is the n of the source), the error, and the new state;
  \<^item> \<open>dec c obj s\<close> is dec.Decode(obj): the error, what the target holds afterwards (a
    decoder may have written to it before it failed), and the new state;
  \<^item> \<open>enc c obj s\<close> is enc.Encode(obj).
\<close>

record ('b, 's) rpcCodec =
  rwc_Read :: "nat \<Rightarrow> 's \<Rightarrow> byte list \<times> error option \<times> 's"
  rwc_Close :: "'s \<Rightarrow> error option \<times> 's"
  dec :: "'b val \<Rightarrow> 's \<Rightarrow> error option \<times> 'b val \<times> 's"
  enc :: "'b val \<Rightarrow> 's \<Rightarrow> error option \<times> 's"

subsection \<open>Shared methods\<close>

text \<open>
  The methods of rpcCodec carry the prefix \<open>rpc_\<close>, those of goRpcCodec \<open>go_\<close> and
  those of specRpcCodec \<open>spec_\<close>. The two loops stop at the first error.
\<close>

fun rpc_write :: "('b, 's) rpcCodec \<Rightarrow> 'b val list \<Rightarrow> 's \<Rightarrow> error option \<times> 's" where
  "rpc_write c [] s = (None, s)"
| "rpc_write c (obj # objs) s =
     (case enc c obj s of
        (Some err, s') \<Rightarrow> (Some err, s')
      | (None, s') \<Rightarrow> rpc_write c objs s')"

fun rpc_read :: "('b, 's) rpcCodec \<Rightarrow> 'b val list \<Rightarrow> 's \<Rightarrow> error option \<times> 'b val list \<times> 's" where
  "rpc_read c [] s = (None, [], s)"
| "rpc_read c (obj # objs) s =
     (case dec c obj s of
        (Some err, obj', s') \<Rightarrow> (Some err, obj' # objs, s')
      | (None, obj', s') \<Rightarrow>
          (case rpc_read c objs s' of (err, objs', s'') \<Rightarrow> (err, obj' # objs', s'')))"

definition rpc_Close :: "('b, 's) rpcCodec \<Rightarrow> 's \<Rightarrow> error option \<times> 's" where
  "rpc_Close c s = rwc_Close c s"

definition rpc_ReadResponseBody ::
  "('b, 's) rpcCodec \<Rightarrow> 'b val \<Rightarrow> 's \<Rightarrow> error option \<times> 'b val \<times> 's" where
  "rpc_ReadResponseBody c body s = dec c body s"

subsection \<open>Basic codec\<close>

definition go_WriteRequest ::
  "('b, 's) rpcCodec \<Rightarrow> Request \<Rightarrow> 'b val \<Rightarrow> 's \<Rightarrow> error option \<times> 's" where
  "go_WriteRequest c r body s = rpc_write c [RequestV r, body] s"

definition go_WriteResponse ::
  "('b, 's) rpcCodec \<Rightarrow> Response \<Rightarrow> 'b val \<Rightarrow> 's \<Rightarrow> error option \<times> 's" where
  "go_WriteResponse c r body s = rpc_write c [ResponseV r, body] s"

definition go_ReadRequestBody ::
  "('b, 's) rpcCodec \<Rightarrow> 'b val \<Rightarrow> 's \<Rightarrow> error option \<times> 'b val \<times> 's" where
  "go_ReadRequestBody c body s = dec c body s"

text \<open>
  The header readers decode into the envelope the caller passed. A decoder leaves a
  pointer's type alone, so the envelope afterwards is what the target holds; the second
  branch, for a target that holds something else, keeps the caller's envelope.
\<close>

definition go_ReadResponseHeader ::
  "('b, 's) rpcCodec \<Rightarrow> Response \<Rightarrow> 's \<Rightarrow> error option \<times> Response \<times> 's" where
  "go_ReadResponseHeader c r s =
     (case dec c (ResponseV r) s of
        (err, ResponseV r', s') \<Rightarrow> (err, r', s')
      | (err, _, s') \<Rightarrow> (err, r, s'))"

definition go_ReadRequestHeader ::
  "('b, 's) rpcCodec \<Rightarrow> Request \<Rightarrow> 's \<Rightarrow> error option \<times> Request \<times> 's" where
  "go_ReadRequestHeader c r s =
     (case dec c (RequestV r) s of
        (err, RequestV r', s') \<Rightarrow> (err, r', s')
      | (err, _, s') \<Rightarrow> (err, r, s'))"

subsection \<open>Custom codec\<close>

definition fia :: byte where
  "fia = 0x94"  \<comment> \<open>four item array descriptor value\<close>

text \<open>
  writeCustomBody: moe starts as the string; for a response (typeByte 1) an empty string
  becomes nil, and a body beside a non-nil moe becomes nil. One slice of four values is
  encoded, the message id cut to uint32.
\<close>

definition writeCustomBody ::
  "('b, 's) rpcCodec \<Rightarrow> byte \<Rightarrow> 64 word \<Rightarrow> string \<Rightarrow> 'b val \<Rightarrow> 's \<Rightarrow> error option \<times> 's" where
  "writeCustomBody c typeByte msgid methodOrError body s =
     (let moe = StringV methodOrError;
          moe = (if typeByte = 1 \<and> methodOrError = [] then NilV else moe);
          body = (if typeByte = 1 \<and> moe \<noteq> NilV \<and> body \<noteq> NilV then NilV else body);
          r2 = SliceV [ByteV typeByte, Uint32V (ucast msgid), moe, body]
      in enc c r2 s)"

text \<open>
  parseCustomHeader: one byte is read from the connection itself; then the type byte, the
  message id and the string are decoded with \<open>rpc_read\<close>, into a local byte and through the
  two pointers of the caller. The result carries what the two pointers hold afterwards.
\<close>

definition parseCustomHeader ::
  "('b, 's) rpcCodec \<Rightarrow> byte \<Rightarrow> 64 word \<Rightarrow> string \<Rightarrow> 's
    \<Rightarrow> error option \<times> 64 word \<times> string \<times> 's" where
  "parseCustomHeader c expectTypeByte msgid methodOrError s =
     (case rwc_Read c 1 s of
        (bs, Some err, s1) \<Rightarrow> (Some err, msgid, methodOrError, s1)
      | (bs, None, s1) \<Rightarrow>
          if length bs \<noteq> 1 then (Some NoBytesRead, msgid, methodOrError, s1)
          else if hd bs \<noteq> fia
            then (Some (UnexpectedArrayDescriptor fia (hd bs)), msgid, methodOrError, s1)
          else
            (case rpc_read c [ByteV 0, Uint64V msgid, StringV methodOrError] s1 of
               (err, objs, s2) \<Rightarrow>
                 let b = (case objs of ByteV x # _ \<Rightarrow> x | _ \<Rightarrow> 0);
                     msgid' = (case objs of [_, Uint64V x, _] \<Rightarrow> x | _ \<Rightarrow> msgid);
                     moe' = (case objs of [_, _, StringV x] \<Rightarrow> x | _ \<Rightarrow> methodOrError)
                 in (case err of
                       Some e \<Rightarrow> (Some e, msgid', moe', s2)
                     | None \<Rightarrow>
                         if b \<noteq> expectTypeByte
                         then (Some (UnexpectedByteDescriptor expectTypeByte b), msgid', moe', s2)
                         else (None, msgid', moe', s2))))"

definition spec_WriteRequest ::
  "('b, 's) rpcCodec \<Rightarrow> Request \<Rightarrow> 'b val \<Rightarrow> 's \<Rightarrow> error option \<times> 's" where
  "spec_WriteRequest c r body s = writeCustomBody c 0 (Seq r) (ServiceMethod r) (SliceV [body]) s"

definition spec_WriteResponse ::
  "('b, 's) rpcCodec \<Rightarrow> Response \<Rightarrow> 'b val \<Rightarrow> 's \<Rightarrow> error option \<times> 's" where
  "spec_WriteResponse c r body s = writeCustomBody c 1 (Seq r) (Error r) body s"

text \<open>
  ReadRequestBody decodes into a slice whose one element is the caller's body; the result
  carries what that element holds afterwards.
\<close>

definition spec_ReadRequestBody ::
  "('b, 's) rpcCodec \<Rightarrow> 'b val \<Rightarrow> 's \<Rightarrow> error option \<times> 'b val \<times> 's" where
  "spec_ReadRequestBody c body s =
     (let bodyArr = SliceV [body] in
      case dec c bodyArr s of
        (err, SliceV (body' # _), s') \<Rightarrow> (err, body', s')
      | (err, _, s') \<Rightarrow> (err, body, s'))"

definition spec_ReadResponseHeader ::
  "('b, 's) rpcCodec \<Rightarrow> Response \<Rightarrow> 's \<Rightarrow> error option \<times> Response \<times> 's" where
  "spec_ReadResponseHeader c r s =
     (case parseCustomHeader c 1 (Seq r) (Error r) s of
        (err, msgid, moe, s') \<Rightarrow> (err, r\<lparr>Seq := msgid, Error := moe\<rparr>, s'))"

definition spec_ReadRequestHeader ::
  "('b, 's) rpcCodec \<Rightarrow> Request \<Rightarrow> 's \<Rightarrow> error option \<times> Request \<times> 's" where
  "spec_ReadRequestHeader c r s =
     (case parseCustomHeader c 0 (Seq r) (ServiceMethod r) s of
        (err, msgid, moe, s') \<Rightarrow> (err, r\<lparr>Seq := msgid, ServiceMethod := moe\<rparr>, s'))"

subsection \<open>The loops, value by value\<close>

text \<open>
  What \<open>rpc_write\<close> and \<open>rpc_read\<close> are compared with: the state after every value of
  a list has gone through the Encoder (or the Decoder) once, in the order of the list,
  and what the \<open>i\<close>-th target holds after its turn.
\<close>

definition enc_state :: "('b, 's) rpcCodec \<Rightarrow> 's \<Rightarrow> 'b val list \<Rightarrow> 's" where
  "enc_state c s objs = foldl (\<lambda>s obj. snd (enc c obj s)) s objs"

definition dec_state :: "('b, 's) rpcCodec \<Rightarrow> 's \<Rightarrow> 'b val list \<Rightarrow> 's" where
  "dec_state c s objs = foldl (\<lambda>s obj. snd (snd (dec c obj s))) s objs"

definition dec_target :: "('b, 's) rpcCodec \<Rightarrow> 's \<Rightarrow> 'b val list \<Rightarrow> nat \<Rightarrow> 'b val" where
  "dec_target c s objs i = fst (snd (dec c (objs ! i) (dec_state c s (take i objs))))"


subsection \<open>A loopback connection and a fragment of msgpack\<close>

text \<open>
  An instance of the codec to run it on: the connection is a queue of bytes, the Encoder
  appends the bytes of a value to it, and Read and the Decoder take bytes from its front.
  \<open>inverts\<close> says that the decoder, given a target, reads back what the encoder wrote
  for a value, whatever follows on the stream; \<open>fixarray4\<close> says that a slice of four
  values is encoded as the descriptor byte \<open>fia\<close> followed by the four encodings, which is
  what parseCustomHeader relies on when it reads that byte by hand.

  The Encoder and Decoder of the package are not part of rpc.go, which only calls them.
  The encoder and decoder below stand in for them where a codec has to run: they cover
  the part of the msgpack format that the envelopes need: nil (0xc0), positive fixint, uint 8 (0xcc), uint 32 (0xce), fixraw (0xa0 + n),
  fixarray (0x90 + n), and the two envelope structs as a fixmap (0x80 + n) keyed by field
  name. \<open>recorder\<close> is a second instance, whose Encoder keeps the values it is given.
\<close>

unbundle bit_operations_syntax

definition loopback ::
  "('b val \<Rightarrow> error + byte list) \<Rightarrow> ('b val \<Rightarrow> byte list \<Rightarrow> error option \<times> 'b val \<times> byte list)
    \<Rightarrow> ('b, byte list) rpcCodec" where
  "loopback encB decB =
     \<lparr> rwc_Read = (\<lambda>k s. if s = [] then ([], Some (External ''EOF''), s)
                           else (take k s, None, drop k s)),
       rwc_Close = (\<lambda>s. (None, s)),
       dec = decB,
       enc = (\<lambda>obj s. case encB obj of Inl e \<Rightarrow> (Some e, s) | Inr bs \<Rightarrow> (None, s @ bs)) \<rparr>"

definition encoding :: "('b val \<Rightarrow> error + byte list) \<Rightarrow> 'b val \<Rightarrow> byte list" where
  "encoding encB obj = (case encB obj of Inl e \<Rightarrow> [] | Inr bs \<Rightarrow> bs)"

definition inverts ::
  "('b val \<Rightarrow> error + byte list) \<Rightarrow> ('b val \<Rightarrow> byte list \<Rightarrow> error option \<times> 'b val \<times> byte list)
    \<Rightarrow> 'b val \<Rightarrow> 'b val \<Rightarrow> 'b val \<Rightarrow> bool" where
  "inverts encB decB obj target obj' \<longleftrightarrow>
     encB obj = Inr (encoding encB obj) \<and>
     (\<forall>rest. decB target (encoding encB obj @ rest) = (None, obj', rest))"

definition fixarray4 ::
  "('b val \<Rightarrow> error + byte list) \<Rightarrow> 'b val \<Rightarrow> 'b val \<Rightarrow> 'b val \<Rightarrow> 'b val \<Rightarrow> bool" where
  "fixarray4 encB x0 x1 x2 x3 \<longleftrightarrow>
     encB (SliceV [x0, x1, x2, x3]) =
       Inr (fia # encoding encB x0 @ encoding encB x1 @ encoding encB x2 @ encoding encB x3)"

definition header_inverts ::
  "('b val \<Rightarrow> error + byte list) \<Rightarrow> ('b val \<Rightarrow> byte list \<Rightarrow> error option \<times> 'b val \<times> byte list)
    \<Rightarrow> byte \<Rightarrow> 32 word \<Rightarrow> 'b val \<Rightarrow> 'b val \<Rightarrow> 64 word \<Rightarrow> string \<Rightarrow> string \<Rightarrow> bool" where
  "header_inverts encB decB t w moe body msgid0 str0 str \<longleftrightarrow>
     fixarray4 encB (ByteV t) (Uint32V w) moe body \<and>
     inverts encB decB (ByteV t) (ByteV 0) (ByteV t) \<and>
     inverts encB decB (Uint32V w) (Uint64V msgid0) (Uint64V (ucast w)) \<and>
     inverts encB decB moe (StringV str0) (StringV str)"

definition byte_of_char :: "char \<Rightarrow> byte" where
  "byte_of_char ch = of_nat (of_char ch)"

definition char_of_byte :: "byte \<Rightarrow> char" where
  "char_of_byte b = char_of (unat b)"

definition unsupported :: error where
  "unsupported = External ''unsupported''"

definition mp_uint_bytes :: "64 word \<Rightarrow> error + byte list" where
  "mp_uint_bytes w =
     (if w < 0x80 then Inr [ucast w]
      else if w < 0x100 then Inr [0xcc, ucast w]
      else if w < 0x100000000
        then Inr [0xce, ucast (drop_bit 24 w), ucast (drop_bit 16 w), ucast (drop_bit 8 w), ucast w]
      else Inl unsupported)"

definition mp_str_bytes :: "string \<Rightarrow> error + byte list" where
  "mp_str_bytes str =
     (if length str < 32 then Inr ((0xa0 + of_nat (length str)) # map byte_of_char str)
      else Inl unsupported)"

fun mp_join :: "(error + byte list) list \<Rightarrow> error + byte list" where
  "mp_join [] = Inr []"
| "mp_join (Inl e # rs) = Inl e"
| "mp_join (Inr bs # rs) = (case mp_join rs of Inl e \<Rightarrow> Inl e | Inr bs' \<Rightarrow> Inr (bs @ bs'))"

fun mp_encode :: "'b val \<Rightarrow> error + byte list" where
  "mp_encode NilV = Inr [0xc0]"
| "mp_encode (ByteV b) = mp_uint_bytes (ucast b)"
| "mp_encode (Uint32V w) = mp_uint_bytes (ucast w)"
| "mp_encode (Uint64V w) = mp_uint_bytes w"
| "mp_encode (StringV str) = mp_str_bytes str"
| "mp_encode (SliceV objs) =
     (if length objs < 16
      then mp_join (Inr [0x90 + of_nat (length objs)] # map mp_encode objs)
      else Inl unsupported)"
| "mp_encode (RequestV r) =
     mp_join [Inr [0x82],
              mp_str_bytes ''ServiceMethod'', mp_str_bytes (ServiceMethod r),
              mp_str_bytes ''Seq'', mp_uint_bytes (Seq r)]"
| "mp_encode (ResponseV r) =
     mp_join [Inr [0x83],
              mp_str_bytes ''ServiceMethod'', mp_str_bytes (ServiceMethod r),
              mp_str_bytes ''Seq'', mp_uint_bytes (Seq r),
              mp_str_bytes ''Error'', mp_str_bytes (Error r)]"
| "mp_encode (OtherV x) = Inl unsupported"

fun mp_uint :: "byte list \<Rightarrow> (64 word \<times> byte list) option" where
  "mp_uint (b # rest) =
     (if b < 0x80 then Some (ucast b, rest)
      else if b = 0xcc then (case rest of v # rest' \<Rightarrow> Some (ucast v, rest') | _ \<Rightarrow> None)
      else if b = 0xce then
        (case rest of
           b3 # b2 # b1 # b0 # rest' \<Rightarrow>
             Some (push_bit 24 (ucast b3) OR push_bit 16 (ucast b2) OR push_bit 8 (ucast b1)
                   OR ucast b0, rest')
         | _ \<Rightarrow> None)
      else None)"
| "mp_uint [] = None"

fun mp_str :: "byte list \<Rightarrow> (string \<times> byte list) option" where
  "mp_str (b # rest) =
     (if 0xa0 \<le> b \<and> b < 0xc0 \<and> unat (b - 0xa0) \<le> length rest
      then Some (map char_of_byte (take (unat (b - 0xa0)) rest), drop (unat (b - 0xa0)) rest)
      else None)"
| "mp_str [] = None"

definition mp_key :: "string \<Rightarrow> byte list \<Rightarrow> byte list option" where
  "mp_key name s = do { (k, rest) \<leftarrow> mp_str s; if k = name then Some rest else None }"

fun mp_tag :: "byte \<Rightarrow> byte list \<Rightarrow> byte list option" where
  "mp_tag t (b # rest) = (if b = t then Some rest else None)"
| "mp_tag t [] = None"

definition mp_request :: "byte list \<Rightarrow> (Request \<times> byte list) option" where
  "mp_request s = do {
     s \<leftarrow> mp_tag 0x82 s;
     s \<leftarrow> mp_key ''ServiceMethod'' s; (m, s) \<leftarrow> mp_str s;
     s \<leftarrow> mp_key ''Seq'' s; (w, s) \<leftarrow> mp_uint s;
     Some (\<lparr>ServiceMethod = m, Seq = w\<rparr>, s) }"

definition mp_response :: "byte list \<Rightarrow> (Response \<times> byte list) option" where
  "mp_response s = do {
     s \<leftarrow> mp_tag 0x83 s;
     s \<leftarrow> mp_key ''ServiceMethod'' s; (m, s) \<leftarrow> mp_str s;
     s \<leftarrow> mp_key ''Seq'' s; (w, s) \<leftarrow> mp_uint s;
     s \<leftarrow> mp_key ''Error'' s; (e, s) \<leftarrow> mp_str s;
     Some (\<lparr>ServiceMethod = m, Seq = w, Error = e\<rparr>, s) }"

definition mismatch :: error where
  "mismatch = External ''input does not fit the target''"

fun mp_decode :: "'b val \<Rightarrow> byte list \<Rightarrow> error option \<times> 'b val \<times> byte list"
  and mp_decode_elems :: "'b val list \<Rightarrow> byte list \<Rightarrow> error option \<times> 'b val list \<times> byte list" where
  "mp_decode (ByteV x) s =
     (case mp_uint s of
        Some (w, rest) \<Rightarrow> (None, ByteV (ucast w), rest)
      | None \<Rightarrow> (Some mismatch, ByteV x, s))"
| "mp_decode (Uint32V x) s =
     (case mp_uint s of
        Some (w, rest) \<Rightarrow> (None, Uint32V (ucast w), rest)
      | None \<Rightarrow> (Some mismatch, Uint32V x, s))"
| "mp_decode (Uint64V x) s =
     (case mp_uint s of
        Some (w, rest) \<Rightarrow> (None, Uint64V w, rest)
      | None \<Rightarrow> (Some mismatch, Uint64V x, s))"
| "mp_decode (StringV x) s =
     (case mp_tag 0xc0 s of
        Some rest \<Rightarrow> (None, StringV [], rest)
      | None \<Rightarrow>
          (case mp_str s of
             Some (str, rest) \<Rightarrow> (None, StringV str, rest)
           | None \<Rightarrow> (Some mismatch, StringV x, s)))"
| "mp_decode (SliceV ts) s =
     (case mp_tag (0x90 + of_nat (length ts)) s of
        Some rest \<Rightarrow>
          if length ts < 16
          then (case mp_decode_elems ts rest of (e, ts', rest') \<Rightarrow> (e, SliceV ts', rest'))
          else (Some unsupported, SliceV ts, s)
      | None \<Rightarrow> (Some mismatch, SliceV ts, s))"
| "mp_decode (RequestV r) s =
     (case mp_request s of
        Some (r', rest) \<Rightarrow> (None, RequestV r', rest)
      | None \<Rightarrow> (Some mismatch, RequestV r, s))"
| "mp_decode (ResponseV r) s =
     (case mp_response s of
        Some (r', rest) \<Rightarrow> (None, ResponseV r', rest)
      | None \<Rightarrow> (Some mismatch, ResponseV r, s))"
| "mp_decode NilV s = (Some unsupported, NilV, s)"
| "mp_decode (OtherV x) s = (Some unsupported, OtherV x, s)"
| "mp_decode_elems [] s = (None, [], s)"
| "mp_decode_elems (t # ts) s =
     (case mp_decode t s of
        (Some e, t', s') \<Rightarrow> (Some e, t' # ts, s')
      | (None, t', s') \<Rightarrow>
          (case mp_decode_elems ts s' of (e, ts', s'') \<Rightarrow> (e, t' # ts', s'')))"

definition msgpack :: "('b, byte list) rpcCodec" where
  "msgpack = loopback mp_encode mp_decode"


section \<open>Properties\<close>

subsection \<open>The loops and the header step by step\<close>

lemma enc_state_Cons: "enc_state c s (obj # objs) = enc_state c (snd (enc c obj s)) objs"
  by (simp add: enc_state_def)

lemma dec_state_Cons: "dec_state c s (obj # objs) = dec_state c (snd (snd (dec c obj s))) objs"
  by (simp add: dec_state_def)

lemma rpc_write_ok:
  "(\<forall>i<length objs. fst (enc c (objs ! i) (enc_state c s (take i objs))) = None)
   \<Longrightarrow> rpc_write c objs s = (None, enc_state c s objs)"
proof (induction objs arbitrary: s)
  case Nil
  then show ?case by (simp add: enc_state_def)
next
  case (Cons obj objs)
  from Cons.prems have h0: "fst (enc c obj s) = None"
    by (auto simp: enc_state_def dest: spec [of _ 0])
  then obtain s' where e: "enc c obj s = (None, s')"
    by (cases "enc c obj s") auto
  have "\<forall>i<length objs. fst (enc c (objs ! i) (enc_state c s' (take i objs))) = None"
  proof (intro allI impI)
    fix i assume "i < length objs"
    with Cons.prems [rule_format, of "Suc i"] e show
      "fst (enc c (objs ! i) (enc_state c s' (take i objs))) = None"
      by (simp add: enc_state_Cons)
  qed
  from Cons.IH [OF this] e show ?case by (simp add: enc_state_Cons)
qed

lemma rpc_write_fail:
  "i < length objs \<Longrightarrow>
   (\<forall>j<i. fst (enc c (objs ! j) (enc_state c s (take j objs))) = None) \<Longrightarrow>
   fst (enc c (objs ! i) (enc_state c s (take i objs))) = Some e
   \<Longrightarrow> rpc_write c objs s = (Some e, enc_state c s (take (Suc i) objs))"
proof (induction objs arbitrary: s i)
  case Nil
  then show ?case by simp
next
  case (Cons obj objs)
  show ?case
  proof (cases i)
    case 0
    with Cons.prems(3) obtain s' where "enc c obj s = (Some e, s')"
      by (cases "enc c obj s") (auto simp: enc_state_def)
    with 0 show ?thesis by (simp add: enc_state_def)
  next
    case (Suc k)
    from Cons.prems(2) Suc have "fst (enc c obj s) = None"
      by (auto simp: enc_state_def dest: spec [of _ 0])
    then obtain s' where e: "enc c obj s = (None, s')"
      by (cases "enc c obj s") auto
    have a: "k < length objs" using Cons.prems(1) Suc by simp
    have b: "\<forall>j<k. fst (enc c (objs ! j) (enc_state c s' (take j objs))) = None"
    proof (intro allI impI)
      fix j assume "j < k"
      with Cons.prems(2) [rule_format, of "Suc j"] Suc e show
        "fst (enc c (objs ! j) (enc_state c s' (take j objs))) = None"
        by (simp add: enc_state_Cons)
    qed
    have d: "fst (enc c (objs ! k) (enc_state c s' (take k objs))) = Some e"
      using Cons.prems(3) Suc e by (simp add: enc_state_Cons)
    from Cons.IH [OF a b d] e Suc show ?thesis by (simp add: enc_state_Cons)
  qed
qed

lemma dec_target_0: "dec_target c s (obj # objs) 0 = fst (snd (dec c obj s))"
  by (simp add: dec_target_def dec_state_def)

lemma dec_target_Suc:
  "dec_target c s (obj # objs) (Suc i) = dec_target c (snd (snd (dec c obj s))) objs i"
  by (simp add: dec_target_def dec_state_Cons)

lemma map_dec_target_Cons:
  "map (dec_target c s (obj # objs)) [0..<Suc n] =
     fst (snd (dec c obj s)) # map (dec_target c (snd (snd (dec c obj s))) objs) [0..<n]"
proof -
  have "[0..<Suc n] = 0 # map Suc [0..<n]"
    by (simp add: upt_conv_Cons map_Suc_upt del: upt_Suc)
  then show ?thesis
    by (simp add: dec_target_0 dec_target_Suc comp_def del: upt_Suc)
qed

lemma rpc_read_ok:
  "(\<forall>i<length objs. fst (dec c (objs ! i) (dec_state c s (take i objs))) = None)
   \<Longrightarrow> rpc_read c objs s =
         (None, map (dec_target c s objs) [0..<length objs], dec_state c s objs)"
proof (induction objs arbitrary: s)
  case Nil
  then show ?case by (simp add: dec_state_def)
next
  case (Cons obj objs)
  from Cons.prems have "fst (dec c obj s) = None"
    by (auto simp: dec_state_def dest: spec [of _ 0])
  then obtain obj' s' where e: "dec c obj s = (None, obj', s')"
    by (cases "dec c obj s") auto
  have "\<forall>i<length objs. fst (dec c (objs ! i) (dec_state c s' (take i objs))) = None"
  proof (intro allI impI)
    fix i assume "i < length objs"
    with Cons.prems [rule_format, of "Suc i"] e show
      "fst (dec c (objs ! i) (dec_state c s' (take i objs))) = None"
      by (simp add: dec_state_Cons)
  qed
  from Cons.IH [OF this] e map_dec_target_Cons [of c s obj objs "length objs"]
  show ?case by (simp add: dec_state_Cons del: upt_Suc)
qed

lemma rpc_read_fail:
  "i < length objs \<Longrightarrow>
   (\<forall>j<i. fst (dec c (objs ! j) (dec_state c s (take j objs))) = None) \<Longrightarrow>
   fst (dec c (objs ! i) (dec_state c s (take i objs))) = Some e
   \<Longrightarrow> rpc_read c objs s =
         (Some e, map (dec_target c s objs) [0..<Suc i] @ drop (Suc i) objs,
          dec_state c s (take (Suc i) objs))"
proof (induction objs arbitrary: s i)
  case Nil
  then show ?case by simp
next
  case (Cons obj objs)
  show ?case
  proof (cases i)
    case 0
    with Cons.prems(3) obtain obj' s' where "dec c obj s = (Some e, obj', s')"
      by (cases "dec c obj s") (auto simp: dec_state_def)
    with 0 show ?thesis by (simp add: dec_state_def dec_target_def)
  next
    case (Suc k)
    from Cons.prems(2) Suc have "fst (dec c obj s) = None"
      by (auto simp: dec_state_def dest: spec [of _ 0])
    then obtain obj' s' where e: "dec c obj s = (None, obj', s')"
      by (cases "dec c obj s") auto
    have a: "k < length objs" using Cons.prems(1) Suc by simp
    have b: "\<forall>j<k. fst (dec c (objs ! j) (dec_state c s' (take j objs))) = None"
    proof (intro allI impI)
      fix j assume "j < k"
      with Cons.prems(2) [rule_format, of "Suc j"] Suc e show
        "fst (dec c (objs ! j) (dec_state c s' (take j objs))) = None"
        by (simp add: dec_state_Cons)
    qed
    have d: "fst (dec c (objs ! k) (dec_state c s' (take k objs))) = Some e"
      using Cons.prems(3) Suc e by (simp add: dec_state_Cons)
    from Cons.IH [OF a b d] e Suc map_dec_target_Cons [of c s obj objs "Suc k"]
    show ?thesis by (simp add: dec_state_Cons del: upt_Suc)
  qed
qed

lemma char_of_byte_of_char [simp]: "char_of_byte (byte_of_char ch) = ch"
  unfolding char_of_byte_def byte_of_char_def
  by (simp add: unat_of_nat)

lemma parseCustomHeader_rejected:
  assumes "rwc_Read c 1 s = (bs, err, s1)" and "err \<noteq> None \<or> length bs \<noteq> 1 \<or> hd bs \<noteq> fia"
  shows "parseCustomHeader c d msgid moe s =
           (Some (case err of Some x \<Rightarrow> x
                  | None \<Rightarrow> if length bs \<noteq> 1 then NoBytesRead
                            else UnexpectedArrayDescriptor fia (hd bs)),
            msgid, moe, s1)"
  using assms by (cases err) (auto simp: parseCustomHeader_def)

lemma parseCustomHeader_decoded:
  assumes "rwc_Read c 1 s = ([fia], None, s1)"
    and "dec c (ByteV 0) s1 = (None, ByteV b, s2)"
    and "dec c (Uint64V msgid) s2 = (None, Uint64V m, s3)"
    and "dec c (StringV moe) s3 = (None, StringV str, s4)"
  shows "parseCustomHeader c d msgid moe s =
           (if b = d then None else Some (UnexpectedByteDescriptor d b), m, str, s4)"
  using assms by (simp add: parseCustomHeader_def)

lemma loopback_enc:
  "encB obj = Inr bs \<Longrightarrow> enc (loopback encB decB) obj s = (None, s @ bs)"
  by (simp add: loopback_def)

lemma loopback_Read_marker:
  "rwc_Read (loopback encB decB) 1 (b # rest) = ([b], None, rest)"
  by (simp add: loopback_def)

lemma loopback_dec:
  "inverts encB decB obj target obj'
   \<Longrightarrow> dec (loopback encB decB) target (encoding encB obj @ rest) = (None, obj', rest)"
  by (simp add: loopback_def inverts_def)

lemma loopback_envelope:
  assumes "header_inverts encB decB t w moe body msgid0 str0 str"
  shows "enc (loopback encB decB) (SliceV [ByteV t, Uint32V w, moe, body]) [] =
           (None, fia # encoding encB (ByteV t) @ encoding encB (Uint32V w)
                   @ encoding encB moe @ encoding encB body)"
  using assms by (simp add: header_inverts_def fixarray4_def loopback_enc)

lemma loopback_header:
  assumes "header_inverts encB decB t w moe body msgid0 str0 str"
  shows "parseCustomHeader (loopback encB decB) d msgid0 str0
           (fia # encoding encB (ByteV t) @ encoding encB (Uint32V w)
              @ encoding encB moe @ encoding encB body) =
           (if t = d then None else Some (UnexpectedByteDescriptor d t), ucast w, str,
            encoding encB body)"
proof -
  let ?c = "loopback encB decB"
  from assms have i0: "inverts encB decB (ByteV t) (ByteV 0) (ByteV t)"
    and i1: "inverts encB decB (Uint32V w) (Uint64V msgid0) (Uint64V (ucast w))"
    and i2: "inverts encB decB moe (StringV str0) (StringV str)"
    by (simp_all add: header_inverts_def)
  show ?thesis
    by (rule parseCustomHeader_decoded [OF loopback_Read_marker loopback_dec [OF i0]
          loopback_dec [OF i1] loopback_dec [OF i2, of "encoding encB body", simplified]])
qed

subsection \<open>The claims\<close>

text \<open>
  C4: WriteRequest of the custom codec encodes exactly one value, the slice
  [0, uint32(Seq), ServiceMethod, [body]], whose fourth element wraps the body in a slice
  of one element; WriteResponse puts the body (or nil) there unwrapped.
\<close>

theorem spec_WriteRequest_envelope:
  "spec_WriteRequest c r body s =
     enc c (SliceV [ByteV 0, Uint32V (ucast (Seq r)), StringV (ServiceMethod r), SliceV [body]]) s
   \<and> spec_WriteResponse c r' body s =
     enc c (SliceV [ByteV 1, Uint32V (ucast (Seq r')),
                    (if Error r' = [] then NilV else StringV (Error r')),
                    (if Error r' = [] then body else NilV)]) s"
  by (simp add: spec_WriteRequest_def spec_WriteResponse_def writeCustomBody_def)

text \<open>
  C1: WriteResponse of the custom codec encodes one slice of four values,
  [1, uint32(Seq), moe, body]: moe is nil (not the empty string) when Error is empty and
  the error string otherwise; the body is replaced by nil when Error is not empty and the
  body is not nil, and is otherwise the body itself, not wrapped in a slice.
\<close>

theorem spec_WriteResponse_envelope:
  "spec_WriteResponse c r body s =
     enc c (SliceV [ByteV 1, Uint32V (ucast (Seq r)),
                    (if Error r = [] then NilV else StringV (Error r)),
                    (if Error r \<noteq> [] \<and> body \<noteq> NilV then NilV else body)]) s"
  by (simp add: spec_WriteResponse_def writeCustomBody_def)




text \<open>
  C7: \<open>rpc_write\<close> passes the values to the Encoder in order. When every one is
  encoded, it returns no error and the state after all of them; when the value at
  position \<open>k\<close> is the first to fail, it returns that error and the state after the
  values up to \<open>k\<close>, so the values behind it are not encoded and nothing is encoded
  twice. \<open>rpc_read\<close> does the same with the Decoder, and leaves the targets behind the
  failing one untouched.
\<close>

theorem rpc_write_read_first_failure:
  "((\<forall>i<length objs. fst (enc c (objs ! i) (enc_state c s (take i objs))) = None) \<longrightarrow>
      rpc_write c objs s = (None, enc_state c s objs))
   \<and> (k < length objs \<and>
        (\<forall>i<k. fst (enc c (objs ! i) (enc_state c s (take i objs))) = None) \<and>
        fst (enc c (objs ! k) (enc_state c s (take k objs))) = Some e \<longrightarrow>
      rpc_write c objs s = (Some e, enc_state c s (take (Suc k) objs)))
   \<and> ((\<forall>i<length objs. fst (dec c (objs ! i) (dec_state c s (take i objs))) = None) \<longrightarrow>
      rpc_read c objs s =
        (None, map (dec_target c s objs) [0..<length objs], dec_state c s objs))
   \<and> (k < length objs \<and>
        (\<forall>i<k. fst (dec c (objs ! i) (dec_state c s (take i objs))) = None) \<and>
        fst (dec c (objs ! k) (dec_state c s (take k objs))) = Some e \<longrightarrow>
      rpc_read c objs s =
        (Some e, map (dec_target c s objs) [0..<Suc k] @ drop (Suc k) objs,
         dec_state c s (take (Suc k) objs)))"
  using rpc_write_ok [of objs c s] rpc_write_fail [of k objs c s e]
    rpc_read_ok [of objs c s] rpc_read_fail [of k objs c s e]
  by blast

theorem rpc_write_read_first_failure_witness:
  "fst (enc (msgpack :: (unit, byte list) rpcCodec) (ByteV 1) []) = None
   \<and> fst (enc (msgpack :: (unit, byte list) rpcCodec) (OtherV ()) [1]) = Some unsupported
   \<and> rpc_write (msgpack :: (unit, byte list) rpcCodec) [ByteV 1, OtherV (), ByteV 2] [] =
       (Some unsupported, [1])
   \<and> rpc_write (msgpack :: (unit, byte list) rpcCodec) [ByteV 1, ByteV 2] [] = (None, [1, 2])
   \<and> fst (dec (msgpack :: (unit, byte list) rpcCodec) (ByteV 0) [1, 0xc0, 2]) = None
   \<and> fst (dec (msgpack :: (unit, byte list) rpcCodec) (Uint64V 0) [0xc0, 2]) = Some mismatch
   \<and> rpc_read (msgpack :: (unit, byte list) rpcCodec) [ByteV 0, Uint64V 0, ByteV 0] [1, 0xc0, 2] =
       (Some mismatch, [ByteV 1, Uint64V 0, ByteV 0], [0xc0, 2])
   \<and> rpc_read (msgpack :: (unit, byte list) rpcCodec) [ByteV 0, ByteV 0] [1, 2] =
       (None, [ByteV 1, ByteV 2], [])"
proof -
  let ?c = "msgpack :: (unit, byte list) rpcCodec"
  have e0: "enc ?c (ByteV 1) [] = (None, [1])"
    and e1: "enc ?c (OtherV ()) [1] = (Some unsupported, [1])"
    and e2: "enc ?c (ByteV 2) [1] = (None, [1, 2])"
    by (simp_all add: msgpack_def loopback_def mp_uint_bytes_def)
  have d0: "dec ?c (ByteV 0) [1, 0xc0, 2] = (None, ByteV 1, [0xc0, 2])"
    and d1: "dec ?c (Uint64V 0) [0xc0, 2] = (Some mismatch, Uint64V 0, [0xc0, 2])"
    and d2: "dec ?c (ByteV 0) [1, 2] = (None, ByteV 1, [2])"
    and d3: "dec ?c (ByteV 0) [2] = (None, ByteV 2, [])"
    by (simp_all add: msgpack_def loopback_def)
  have w1: "rpc_write ?c [ByteV 1, OtherV (), ByteV 2] [] = (Some unsupported, [1])"
    using rpc_write_read_first_failure [of "[ByteV 1, OtherV (), ByteV 2]" ?c "[]" 1 unsupported]
      e0 e1
    by (simp add: enc_state_def)
  have w2: "rpc_write ?c [ByteV 1, ByteV 2] [] = (None, [1, 2])"
    using rpc_write_read_first_failure [of "[ByteV 1, ByteV 2]" ?c "[]"] e0 e2
    by (simp add: enc_state_def less_Suc_eq)
  have r1: "rpc_read ?c [ByteV 0, Uint64V 0, ByteV 0] [1, 0xc0, 2] =
       (Some mismatch, [ByteV 1, Uint64V 0, ByteV 0], [0xc0, 2])"
    using rpc_write_read_first_failure [of "[ByteV 0, Uint64V 0, ByteV 0]" ?c "[1, 0xc0, 2]" 1 mismatch]
      d0 d1
    by (simp add: dec_state_def dec_target_def)
  have r2: "rpc_read ?c [ByteV 0, ByteV 0] [1, 2] = (None, [ByteV 1, ByteV 2], [])"
    using rpc_write_read_first_failure [of "[ByteV 0, ByteV 0]" ?c "[1, 2]"] d2 d3
    by (simp add: dec_state_def dec_target_def less_Suc_eq)
  from e0 e1 d0 d1 w1 w2 r1 r2 show ?thesis by simp
qed



text \<open>
  C9: the basic codec writes the envelope and then the body, each by one call of the
  Encoder (the body only when the envelope was encoded), and nothing else: on a loopback
  connection the bytes appended are those of the envelope followed by those of the body.
  Each of its four readers is one call of the Decoder on its target.
\<close>

theorem go_codec_two_values:
  "go_WriteRequest c req body s =
     (case enc c (RequestV req) s of
        (Some e, s') \<Rightarrow> (Some e, s')
      | (None, s') \<Rightarrow> enc c body s')
   \<and> go_WriteResponse c resp body s =
     (case enc c (ResponseV resp) s of
        (Some e, s') \<Rightarrow> (Some e, s')
      | (None, s') \<Rightarrow> enc c body s')
   \<and> (encB (RequestV req) = Inr er \<and> encB body = Inr eb \<longrightarrow>
        go_WriteRequest (loopback encB decB) req body bs = (None, bs @ er @ eb))
   \<and> (encB (ResponseV resp) = Inr er' \<and> encB body = Inr eb \<longrightarrow>
        go_WriteResponse (loopback encB decB) resp body bs = (None, bs @ er' @ eb))
   \<and> (dec c (RequestV req0) s = (err, RequestV req', s1) \<longrightarrow>
        go_ReadRequestHeader c req0 s = (err, req', s1))
   \<and> (dec c (ResponseV resp0) s = (err, ResponseV resp', s1) \<longrightarrow>
        go_ReadResponseHeader c resp0 s = (err, resp', s1))
   \<and> go_ReadRequestBody c target s = dec c target s
   \<and> rpc_ReadResponseBody c target s = dec c target s"
proof (intro conjI impI)
  show "go_WriteRequest c req body s =
     (case enc c (RequestV req) s of
        (Some e, s') \<Rightarrow> (Some e, s')
      | (None, s') \<Rightarrow> enc c body s')"
    by (simp add: go_WriteRequest_def split: prod.splits option.splits)
  show "go_WriteResponse c resp body s =
     (case enc c (ResponseV resp) s of
        (Some e, s') \<Rightarrow> (Some e, s')
      | (None, s') \<Rightarrow> enc c body s')"
    by (simp add: go_WriteResponse_def split: prod.splits option.splits)
  show "go_WriteRequest (loopback encB decB) req body bs = (None, bs @ er @ eb)"
    if "encB (RequestV req) = Inr er \<and> encB body = Inr eb"
    using that by (simp add: go_WriteRequest_def loopback_enc)
  show "go_WriteResponse (loopback encB decB) resp body bs = (None, bs @ er' @ eb)"
    if "encB (ResponseV resp) = Inr er' \<and> encB body = Inr eb"
    using that by (simp add: go_WriteResponse_def loopback_enc)
  show "go_ReadRequestHeader c req0 s = (err, req', s1)"
    if "dec c (RequestV req0) s = (err, RequestV req', s1)"
    using that by (simp add: go_ReadRequestHeader_def)
  show "go_ReadResponseHeader c resp0 s = (err, resp', s1)"
    if "dec c (ResponseV resp0) s = (err, ResponseV resp', s1)"
    using that by (simp add: go_ReadResponseHeader_def)
  show "go_ReadRequestBody c target s = dec c target s"
    by (simp add: go_ReadRequestBody_def)
  show "rpc_ReadResponseBody c target s = dec c target s"
    by (simp add: rpc_ReadResponseBody_def)
qed

lemma mp_request_sample:
  "mp_encode (RequestV \<lparr>ServiceMethod = ''Add'', Seq = 7\<rparr> :: unit val) =
     Inr (encoding mp_encode (RequestV \<lparr>ServiceMethod = ''Add'', Seq = 7\<rparr> :: unit val))"
  "mp_decode (RequestV r0)
     (encoding mp_encode (RequestV \<lparr>ServiceMethod = ''Add'', Seq = 7\<rparr> :: unit val) @ rest) =
     (None, RequestV \<lparr>ServiceMethod = ''Add'', Seq = 7\<rparr>, rest)"
  by (simp_all add: encoding_def mp_str_bytes_def mp_uint_bytes_def mp_request_def mp_key_def)

lemma mp_response_sample:
  "mp_encode (ResponseV \<lparr>ServiceMethod = ''Add'', Seq = 7, Error = []\<rparr> :: unit val) =
     Inr (encoding mp_encode (ResponseV \<lparr>ServiceMethod = ''Add'', Seq = 7, Error = []\<rparr> :: unit val))"
  "mp_decode (ResponseV r1)
     (encoding mp_encode (ResponseV \<lparr>ServiceMethod = ''Add'', Seq = 7, Error = []\<rparr> :: unit val)
        @ rest) =
     (None, ResponseV \<lparr>ServiceMethod = ''Add'', Seq = 7, Error = []\<rparr>, rest)"
  by (simp_all add: encoding_def mp_str_bytes_def mp_uint_bytes_def mp_response_def mp_key_def)

theorem go_codec_two_values_witness:
  "mp_encode (RequestV \<lparr>ServiceMethod = ''Add'', Seq = 7\<rparr> :: unit val) =
     Inr (encoding mp_encode (RequestV \<lparr>ServiceMethod = ''Add'', Seq = 7\<rparr> :: unit val))
   \<and> mp_encode (ResponseV \<lparr>ServiceMethod = ''Add'', Seq = 7, Error = []\<rparr> :: unit val) =
     Inr (encoding mp_encode (ResponseV \<lparr>ServiceMethod = ''Add'', Seq = 7, Error = []\<rparr> :: unit val))
   \<and> mp_encode (Uint32V 3 :: unit val) = Inr [3]
   \<and> go_WriteRequest (msgpack :: (unit, byte list) rpcCodec)
        \<lparr>ServiceMethod = ''Add'', Seq = 7\<rparr> (Uint32V 3) [] =
        (None, encoding mp_encode (RequestV \<lparr>ServiceMethod = ''Add'', Seq = 7\<rparr> :: unit val) @ [3])
   \<and> go_WriteResponse (msgpack :: (unit, byte list) rpcCodec)
        \<lparr>ServiceMethod = ''Add'', Seq = 7, Error = []\<rparr> (Uint32V 3) [] =
        (None, encoding mp_encode
                 (ResponseV \<lparr>ServiceMethod = ''Add'', Seq = 7, Error = []\<rparr> :: unit val) @ [3])
   \<and> go_ReadRequestHeader (msgpack :: (unit, byte list) rpcCodec) \<lparr>ServiceMethod = [], Seq = 0\<rparr>
        (encoding mp_encode (RequestV \<lparr>ServiceMethod = ''Add'', Seq = 7\<rparr> :: unit val) @ [3]) =
        (None, \<lparr>ServiceMethod = ''Add'', Seq = 7\<rparr>, [3])
   \<and> go_ReadResponseHeader (msgpack :: (unit, byte list) rpcCodec)
        \<lparr>ServiceMethod = [], Seq = 0, Error = ''old''\<rparr>
        (encoding mp_encode
           (ResponseV \<lparr>ServiceMethod = ''Add'', Seq = 7, Error = []\<rparr> :: unit val) @ [3]) =
        (None, \<lparr>ServiceMethod = ''Add'', Seq = 7, Error = []\<rparr>, [3])
   \<and> go_ReadRequestBody (msgpack :: (unit, byte list) rpcCodec) (Uint32V 0) [3] =
        (None, Uint32V 3, [])
   \<and> rpc_ReadResponseBody (msgpack :: (unit, byte list) rpcCodec) (Uint32V 0) [3] =
        (None, Uint32V 3, [])"
proof -
  let ?c = "msgpack :: (unit, byte list) rpcCodec"
  let ?req = "\<lparr>ServiceMethod = ''Add'', Seq = 7\<rparr>"
  let ?resp = "\<lparr>ServiceMethod = ''Add'', Seq = 7, Error = []\<rparr>"
  let ?er = "encoding mp_encode (RequestV ?req :: unit val)"
  let ?er' = "encoding mp_encode (ResponseV ?resp :: unit val)"
  have b: "mp_encode (Uint32V 3 :: unit val) = Inr [3]"
    by (simp add: mp_uint_bytes_def)
  have d: "dec ?c (Uint32V 0) [3] = (None, Uint32V 3, [])"
    by (simp add: msgpack_def loopback_def)
  have dq: "dec ?c (RequestV \<lparr>ServiceMethod = [], Seq = 0\<rparr>) (?er @ [3]) = (None, RequestV ?req, [3])"
    by (simp add: msgpack_def loopback_def mp_request_sample del: mp_decode.simps)
  have dp: "dec ?c (ResponseV \<lparr>ServiceMethod = [], Seq = 0, Error = ''old''\<rparr>) (?er' @ [3]) =
      (None, ResponseV ?resp, [3])"
    by (simp add: msgpack_def loopback_def mp_response_sample del: mp_decode.simps)
  note t1 = go_codec_two_values [where c = ?c and encB = mp_encode and decB = mp_decode
      and req = ?req and resp = ?resp and body = "Uint32V 3" and er = ?er and er' = ?er'
      and eb = "[3]" and bs = "[]" and s = "?er @ [3]" and err = None and ?s1.0 = "[3]"
      and ?req0.0 = "\<lparr>ServiceMethod = [], Seq = 0\<rparr>" and req' = ?req, folded msgpack_def]
  note t2 = go_codec_two_values [where c = ?c and s = "?er' @ [3]" and err = None and ?s1.0 = "[3]"
      and ?resp0.0 = "\<lparr>ServiceMethod = [], Seq = 0, Error = ''old''\<rparr>" and resp' = ?resp]
  note t3 = go_codec_two_values [where c = ?c and s = "[3]" and target = "Uint32V 0"]
  have w1: "go_WriteRequest ?c ?req (Uint32V 3) [] = (None, ?er @ [3])"
    using t1 mp_request_sample(1) b by simp
  have w2: "go_WriteResponse ?c ?resp (Uint32V 3) [] = (None, ?er' @ [3])"
    using t1 mp_response_sample(1) b by simp
  have r1: "go_ReadRequestHeader ?c \<lparr>ServiceMethod = [], Seq = 0\<rparr> (?er @ [3]) = (None, ?req, [3])"
    using t1 dq by simp
  have r2: "go_ReadResponseHeader ?c \<lparr>ServiceMethod = [], Seq = 0, Error = ''old''\<rparr> (?er' @ [3]) =
      (None, ?resp, [3])"
    using t2 dp by simp
  have r3: "go_ReadRequestBody ?c (Uint32V 0) [3] = (None, Uint32V 3, [])"
    and r4: "rpc_ReadResponseBody ?c (Uint32V 0) [3] = (None, Uint32V 3, [])"
    using t3 d by simp_all
  from mp_request_sample(1) mp_response_sample(1) b w1 w2 r1 r2 r3 r4 show ?thesis
    by (intro conjI)
qed

lemma loopback_request:
  assumes "header_inverts encB decB 0 (ucast (Seq r)) (StringV (ServiceMethod r)) (SliceV [body])
             (Seq r0) (ServiceMethod r0) str"
  shows "spec_WriteRequest (loopback encB decB) r body [] =
           (None, fia # encoding encB (ByteV 0) @ encoding encB (Uint32V (ucast (Seq r)))
                   @ encoding encB (StringV (ServiceMethod r)) @ encoding encB (SliceV [body]))"
    and "spec_ReadRequestHeader (loopback encB decB) r0
           (fia # encoding encB (ByteV 0) @ encoding encB (Uint32V (ucast (Seq r)))
              @ encoding encB (StringV (ServiceMethod r)) @ encoding encB (SliceV [body])) =
           (None, r0\<lparr>Seq := ucast (ucast (Seq r) :: 32 word), ServiceMethod := str\<rparr>,
            encoding encB (SliceV [body]))"
  using loopback_envelope [OF assms] loopback_header [OF assms, of 0]
  by (simp_all add: spec_WriteRequest_def writeCustomBody_def spec_ReadRequestHeader_def)

text \<open>
  C3: on a loopback connection whose decoder inverts its encoder on the four slots of the
  request envelope, WriteRequest followed by ReadRequestHeader and ReadRequestBody gives
  back the ServiceMethod, the sequence number cut to 32 bits and widened again, and the
  body, and leaves the stream empty.
\<close>

theorem spec_request_round_trip:
  assumes "header_inverts encB decB 0 (ucast (Seq r)) (StringV (ServiceMethod r)) (SliceV [body])
             (Seq r0) (ServiceMethod r0) (ServiceMethod r)"
    and "inverts encB decB (SliceV [body]) (SliceV [target]) (SliceV [body])"
  shows "\<exists>s1 s2.
           spec_WriteRequest (loopback encB decB) r body [] = (None, s1) \<and>
           spec_ReadRequestHeader (loopback encB decB) r0 s1 =
             (None, r0\<lparr>Seq := ucast (ucast (Seq r) :: 32 word),
                       ServiceMethod := ServiceMethod r\<rparr>, s2) \<and>
           spec_ReadRequestBody (loopback encB decB) target s2 = (None, body, [])"
proof -
  have "spec_ReadRequestBody (loopback encB decB) target (encoding encB (SliceV [body])) =
          (None, body, [])"
    using loopback_dec [OF assms(2), of "[]"] by (simp add: spec_ReadRequestBody_def)
  with loopback_request [OF assms(1)] show ?thesis by blast
qed

lemma mp_request_header_sample:
  "header_inverts mp_encode mp_decode 0 7 (StringV ''Arith.Add'')
     (SliceV [SliceV [Uint32V 1, Uint32V 2 :: unit val]]) msgid0 str0 ''Arith.Add''"
  by (simp add: header_inverts_def fixarray4_def inverts_def encoding_def mp_uint_bytes_def
        mp_str_bytes_def fia_def)

lemma mp_request_body_sample:
  "inverts mp_encode mp_decode (SliceV [SliceV [Uint32V 1, Uint32V 2 :: unit val]])
     (SliceV [SliceV [Uint32V 0, Uint32V 0]]) (SliceV [SliceV [Uint32V 1, Uint32V 2]])"
  by (simp add: inverts_def encoding_def mp_uint_bytes_def)

theorem spec_request_round_trip_witness:
  "header_inverts mp_encode mp_decode 0 7 (StringV ''Arith.Add'')
     (SliceV [SliceV [Uint32V 1, Uint32V 2 :: unit val]]) 0 [] ''Arith.Add''
   \<and> inverts mp_encode mp_decode (SliceV [SliceV [Uint32V 1, Uint32V 2 :: unit val]])
     (SliceV [SliceV [Uint32V 0, Uint32V 0]]) (SliceV [SliceV [Uint32V 1, Uint32V 2]])
   \<and> (\<exists>s1 s2.
         spec_WriteRequest msgpack \<lparr>ServiceMethod = ''Arith.Add'', Seq = 7\<rparr>
           (SliceV [Uint32V 1, Uint32V 2 :: unit val]) [] = (None, s1) \<and>
         spec_ReadRequestHeader (msgpack :: (unit, byte list) rpcCodec)
           \<lparr>ServiceMethod = [], Seq = 0\<rparr> s1 =
           (None, \<lparr>ServiceMethod = ''Arith.Add'', Seq = 7\<rparr>, s2) \<and>
         spec_ReadRequestBody (msgpack :: (unit, byte list) rpcCodec)
           (SliceV [Uint32V 0, Uint32V 0]) s2 =
           (None, SliceV [Uint32V 1, Uint32V 2], []))"
proof -
  have h: "header_inverts mp_encode mp_decode 0
      (ucast (Seq \<lparr>ServiceMethod = ''Arith.Add'', Seq = 7\<rparr>))
      (StringV (ServiceMethod \<lparr>ServiceMethod = ''Arith.Add'', Seq = 7\<rparr>))
      (SliceV [SliceV [Uint32V 1, Uint32V 2 :: unit val]])
      (Seq \<lparr>ServiceMethod = [], Seq = 0\<rparr>) (ServiceMethod \<lparr>ServiceMethod = [], Seq = 0\<rparr>)
      (ServiceMethod \<lparr>ServiceMethod = ''Arith.Add'', Seq = 7\<rparr>)"
    using mp_request_header_sample [of 0 "[]"] by simp
  have "\<exists>s1 s2.
         spec_WriteRequest msgpack \<lparr>ServiceMethod = ''Arith.Add'', Seq = 7\<rparr>
           (SliceV [Uint32V 1, Uint32V 2 :: unit val]) [] = (None, s1) \<and>
         spec_ReadRequestHeader (msgpack :: (unit, byte list) rpcCodec)
           \<lparr>ServiceMethod = [], Seq = 0\<rparr> s1 =
           (None, \<lparr>ServiceMethod = ''Arith.Add'', Seq = 7\<rparr>, s2) \<and>
         spec_ReadRequestBody (msgpack :: (unit, byte list) rpcCodec)
           (SliceV [Uint32V 0, Uint32V 0]) s2 =
           (None, SliceV [Uint32V 1, Uint32V 2], [])"
    using spec_request_round_trip [OF h mp_request_body_sample, folded msgpack_def] by simp
  with mp_request_header_sample [of 0 "[]"] mp_request_body_sample
  show ?thesis by blast
qed

lemma unat_truncate: "unat (ucast (x :: 64 word) :: 32 word) = unat x mod 2 ^ 32"
  by (simp add: unsigned_ucast_eq take_bit_eq_mod)

lemma unat_widen: "unat (ucast (ucast (x :: 64 word) :: 32 word) :: 64 word) = unat x mod 2 ^ 32"
  by (simp add: unsigned_ucast_eq take_bit_eq_mod unat_mod)

lemma widen_eq_iff: "(ucast (ucast (x :: 64 word) :: 32 word) = x) = (unat x < 2 ^ 32)"
proof
  assume "ucast (ucast x :: 32 word) = x"
  then have "unat x = unat x mod 2 ^ 32" using unat_widen [of x] by simp
  moreover have "unat x mod 2 ^ 32 < 2 ^ 32" by simp
  ultimately show "unat x < 2 ^ 32" by linarith
next
  assume "unat x < 2 ^ 32"
  then have "unat (ucast (ucast x :: 32 word) :: 64 word) = unat x"
    by (simp add: unat_widen)
  then show "ucast (ucast x :: 32 word) = x"
    by (simp add: word_unat_eq_iff)
qed

lemma loopback_response:
  assumes "header_inverts encB decB 1 (ucast (Seq r))
             (if Error r = [] then NilV else StringV (Error r))
             (if Error r = [] then body else NilV) msgid0 str0 str"
  shows "spec_WriteResponse (loopback encB decB) r body [] =
           (None, fia # encoding encB (ByteV 1) @ encoding encB (Uint32V (ucast (Seq r)))
                   @ encoding encB (if Error r = [] then NilV else StringV (Error r))
                   @ encoding encB (if Error r = [] then body else NilV))"
    and "parseCustomHeader (loopback encB decB) d msgid0 str0
           (fia # encoding encB (ByteV 1) @ encoding encB (Uint32V (ucast (Seq r)))
              @ encoding encB (if Error r = [] then NilV else StringV (Error r))
              @ encoding encB (if Error r = [] then body else NilV)) =
           (if 1 = d then None else Some (UnexpectedByteDescriptor d 1),
            ucast (ucast (Seq r) :: 32 word), str,
            encoding encB (if Error r = [] then body else NilV))"
proof -
  have "spec_WriteResponse (loopback encB decB) r body [] =
          enc (loopback encB decB)
            (SliceV [ByteV 1, Uint32V (ucast (Seq r)),
                     if Error r = [] then NilV else StringV (Error r),
                     if Error r = [] then body else NilV]) []"
    by (simp add: spec_WriteResponse_def writeCustomBody_def)
  with loopback_envelope [OF assms] show "spec_WriteResponse (loopback encB decB) r body [] =
           (None, fia # encoding encB (ByteV 1) @ encoding encB (Uint32V (ucast (Seq r)))
                   @ encoding encB (if Error r = [] then NilV else StringV (Error r))
                   @ encoding encB (if Error r = [] then body else NilV))"
    by simp
  show "parseCustomHeader (loopback encB decB) d msgid0 str0
           (fia # encoding encB (ByteV 1) @ encoding encB (Uint32V (ucast (Seq r)))
              @ encoding encB (if Error r = [] then NilV else StringV (Error r))
              @ encoding encB (if Error r = [] then body else NilV)) =
           (if 1 = d then None else Some (UnexpectedByteDescriptor d 1),
            ucast (ucast (Seq r) :: 32 word), str,
            encoding encB (if Error r = [] then body else NilV))"
    by (rule loopback_header [OF assms])
qed



lemma char_of_byte_sample: "char_of_byte 0x6e = CHR ''n''" "char_of_byte 0x6f = CHR ''o''"
  by code_simp+



text \<open>
  C6: both writers of the custom codec put uint32(Seq) on the wire, that is Seq mod 2^32,
  and the header reader decodes into the 64-bit field. On a loopback connection whose
  decoder inverts its encoder the sequence number read back is Seq mod 2^32, and it is
  the one written exactly when Seq is below 2^32.
\<close>

theorem sequence_number_truncated:
  "spec_WriteRequest c req body s =
     enc c (SliceV [ByteV 0, Uint32V (ucast (Seq req)), StringV (ServiceMethod req),
                    SliceV [body]]) s
   \<and> spec_WriteResponse c resp body s =
     enc c (SliceV [ByteV 1, Uint32V (ucast (Seq resp)),
                    (if Error resp = [] then NilV else StringV (Error resp)),
                    (if Error resp = [] then body else NilV)]) s
   \<and> unat (ucast (Seq req) :: 32 word) = unat (Seq req) mod 2 ^ 32
   \<and> unat (ucast (Seq resp) :: 32 word) = unat (Seq resp) mod 2 ^ 32
   \<and> (header_inverts encB decB 0 (ucast (Seq req)) (StringV (ServiceMethod req))
         (SliceV [body]) (Seq req0) (ServiceMethod req0) str \<longrightarrow>
        (\<exists>w req' w'.
           spec_WriteRequest (loopback encB decB) req body [] = (None, w) \<and>
           spec_ReadRequestHeader (loopback encB decB) req0 w = (None, req', w') \<and>
           unat (Seq req') = unat (Seq req) mod 2 ^ 32 \<and>
           (Seq req' = Seq req) = (unat (Seq req) < 2 ^ 32)))
   \<and> (header_inverts encB decB 1 (ucast (Seq resp))
         (if Error resp = [] then NilV else StringV (Error resp))
         (if Error resp = [] then body else NilV) (Seq resp0) (Error resp0) str' \<longrightarrow>
        (\<exists>w resp' w'.
           spec_WriteResponse (loopback encB decB) resp body [] = (None, w) \<and>
           spec_ReadResponseHeader (loopback encB decB) resp0 w = (None, resp', w') \<and>
           unat (Seq resp') = unat (Seq resp) mod 2 ^ 32 \<and>
           (Seq resp' = Seq resp) = (unat (Seq resp) < 2 ^ 32)))"
proof (intro conjI impI)
  show "spec_WriteRequest c req body s =
     enc c (SliceV [ByteV 0, Uint32V (ucast (Seq req)), StringV (ServiceMethod req),
                    SliceV [body]]) s"
    by (simp add: spec_WriteRequest_def writeCustomBody_def)
  show "spec_WriteResponse c resp body s =
     enc c (SliceV [ByteV 1, Uint32V (ucast (Seq resp)),
                    (if Error resp = [] then NilV else StringV (Error resp)),
                    (if Error resp = [] then body else NilV)]) s"
    by (simp add: spec_WriteResponse_def writeCustomBody_def)
  show "unat (ucast (Seq req) :: 32 word) = unat (Seq req) mod 2 ^ 32"
    by (rule unat_truncate)
  show "unat (ucast (Seq resp) :: 32 word) = unat (Seq resp) mod 2 ^ 32"
    by (rule unat_truncate)
next
  assume h: "header_inverts encB decB 0 (ucast (Seq req)) (StringV (ServiceMethod req))
         (SliceV [body]) (Seq req0) (ServiceMethod req0) str"
  let ?req' = "req0\<lparr>Seq := ucast (ucast (Seq req) :: 32 word), ServiceMethod := str\<rparr>"
  have "unat (Seq ?req') = unat (Seq req) mod 2 ^ 32"
    by (simp add: unat_widen)
  moreover have "(Seq ?req' = Seq req) = (unat (Seq req) < 2 ^ 32)"
    by (simp add: widen_eq_iff)
  ultimately show "\<exists>w req' w'.
           spec_WriteRequest (loopback encB decB) req body [] = (None, w) \<and>
           spec_ReadRequestHeader (loopback encB decB) req0 w = (None, req', w') \<and>
           unat (Seq req') = unat (Seq req) mod 2 ^ 32 \<and>
           (Seq req' = Seq req) = (unat (Seq req) < 2 ^ 32)"
    using loopback_request [OF h] by blast
next
  assume h: "header_inverts encB decB 1 (ucast (Seq resp))
         (if Error resp = [] then NilV else StringV (Error resp))
         (if Error resp = [] then body else NilV) (Seq resp0) (Error resp0) str'"
  let ?resp' = "resp0\<lparr>Seq := ucast (ucast (Seq resp) :: 32 word), Error := str'\<rparr>"
  let ?w = "fia # encoding encB (ByteV 1) @ encoding encB (Uint32V (ucast (Seq resp)))
              @ encoding encB (if Error resp = [] then NilV else StringV (Error resp))
              @ encoding encB (if Error resp = [] then body else NilV)"
  have "spec_ReadResponseHeader (loopback encB decB) resp0 ?w =
          (None, ?resp', encoding encB (if Error resp = [] then body else NilV))"
    using loopback_response(2) [OF h, of 1] by (simp add: spec_ReadResponseHeader_def)
  moreover have "unat (Seq ?resp') = unat (Seq resp) mod 2 ^ 32"
    by (simp add: unat_widen)
  moreover have "(Seq ?resp' = Seq resp) = (unat (Seq resp) < 2 ^ 32)"
    by (simp add: widen_eq_iff)
  ultimately show "\<exists>w resp' w'.
           spec_WriteResponse (loopback encB decB) resp body [] = (None, w) \<and>
           spec_ReadResponseHeader (loopback encB decB) resp0 w = (None, resp', w') \<and>
           unat (Seq resp') = unat (Seq resp) mod 2 ^ 32 \<and>
           (Seq resp' = Seq resp) = (unat (Seq resp) < 2 ^ 32)"
    using loopback_response(1) [OF h] by blast
qed

lemma mp_wide_request_sample:
  "header_inverts mp_encode mp_decode 0 (ucast (4294967303 :: 64 word)) (StringV ''Arith.Add'')
     (SliceV [Uint32V 3 :: unit val]) 0 [] ''Arith.Add''"
  by (simp add: header_inverts_def fixarray4_def inverts_def encoding_def mp_uint_bytes_def
        mp_str_bytes_def fia_def)

lemma mp_wide_response_sample:
  "header_inverts mp_encode mp_decode 1 (ucast (4294967303 :: 64 word)) NilV
     (Uint32V 3 :: unit val) 0 ''old'' []"
  by (simp add: header_inverts_def fixarray4_def inverts_def encoding_def mp_uint_bytes_def
        mp_str_bytes_def fia_def)

theorem sequence_number_truncated_witness:
  "header_inverts mp_encode mp_decode 0 (ucast (4294967303 :: 64 word)) (StringV ''Arith.Add'')
     (SliceV [Uint32V 3 :: unit val]) 0 [] ''Arith.Add''
   \<and> header_inverts mp_encode mp_decode 1 (ucast (4294967303 :: 64 word)) NilV
     (Uint32V 3 :: unit val) 0 ''old'' []
   \<and> \<not> unat (4294967303 :: 64 word) < 2 ^ 32
   \<and> (\<exists>w req' w'.
         spec_WriteRequest (msgpack :: (unit, byte list) rpcCodec)
           \<lparr>ServiceMethod = ''Arith.Add'', Seq = 4294967303\<rparr> (Uint32V 3) [] = (None, w) \<and>
         spec_ReadRequestHeader (msgpack :: (unit, byte list) rpcCodec)
           \<lparr>ServiceMethod = [], Seq = 0\<rparr> w = (None, req', w') \<and>
         unat (Seq req') = 7 \<and> Seq req' \<noteq> 4294967303)
   \<and> (\<exists>w resp' w'.
         spec_WriteResponse (msgpack :: (unit, byte list) rpcCodec)
           \<lparr>ServiceMethod = ''Arith.Add'', Seq = 4294967303, Error = []\<rparr> (Uint32V 3) [] =
           (None, w) \<and>
         spec_ReadResponseHeader (msgpack :: (unit, byte list) rpcCodec)
           \<lparr>ServiceMethod = [], Seq = 0, Error = ''old''\<rparr> w = (None, resp', w') \<and>
         unat (Seq resp') = 7 \<and> Seq resp' \<noteq> 4294967303)"
proof -
  let ?c = "msgpack :: (unit, byte list) rpcCodec"
  let ?req = "\<lparr>ServiceMethod = ''Arith.Add'', Seq = 4294967303 :: 64 word\<rparr>"
  let ?resp = "\<lparr>ServiceMethod = ''Arith.Add'', Seq = 4294967303 :: 64 word, Error = []\<rparr>"
  note t = sequence_number_truncated [where c = ?c and encB = mp_encode and decB = mp_decode
      and req = ?req and resp = ?resp and body = "Uint32V 3 :: unit val" and s = "[]"
      and ?req0.0 = "\<lparr>ServiceMethod = [], Seq = 0\<rparr>" and str = "''Arith.Add''"
      and ?resp0.0 = "\<lparr>ServiceMethod = [], Seq = 0, Error = ''old''\<rparr>" and str' = "[]",
      folded msgpack_def]
  have n: "\<not> unat (4294967303 :: 64 word) < 2 ^ 32" by simp
  have m: "unat (4294967303 :: 64 word) mod 2 ^ 32 = 7" by simp
  have a: "\<exists>w req' w'.
         spec_WriteRequest ?c ?req (Uint32V 3) [] = (None, w) \<and>
         spec_ReadRequestHeader ?c \<lparr>ServiceMethod = [], Seq = 0\<rparr> w = (None, req', w') \<and>
         unat (Seq req') = 7 \<and> Seq req' \<noteq> 4294967303"
    using mp_wide_request_sample n m
      t [THEN conjunct2, THEN conjunct2, THEN conjunct2, THEN conjunct2, THEN conjunct1]
    by simp
  have b: "\<exists>w resp' w'.
         spec_WriteResponse ?c ?resp (Uint32V 3) [] = (None, w) \<and>
         spec_ReadResponseHeader ?c \<lparr>ServiceMethod = [], Seq = 0, Error = ''old''\<rparr> w =
           (None, resp', w') \<and>
         unat (Seq resp') = 7 \<and> Seq resp' \<noteq> 4294967303"
    using mp_wide_response_sample n m
      t [THEN conjunct2, THEN conjunct2, THEN conjunct2, THEN conjunct2, THEN conjunct2]
    by simp
  from mp_wide_request_sample mp_wide_response_sample n a b show ?thesis by (intro conjI)
qed

text \<open>
  C10: when the descriptor byte is accepted, the three values are decoded and the type
  byte is not the expected one, the header reader returns the error with the caller's
  sequence number and string already replaced by the decoded ones. When the descriptor
  byte is wrong, they are as they were.
\<close>

theorem spec_header_mismatch_overwrites:
  "(rwc_Read c 1 s = ([fia], None, s1) \<and> dec c (ByteV 0) s1 = (None, ByteV b, s2) \<and>
    dec c (Uint64V (Seq req)) s2 = (None, Uint64V m, s3) \<and>
    dec c (StringV (ServiceMethod req)) s3 = (None, StringV str, s4) \<and> b \<noteq> 0 \<longrightarrow>
      spec_ReadRequestHeader c req s =
        (Some (UnexpectedByteDescriptor 0 b), req\<lparr>Seq := m, ServiceMethod := str\<rparr>, s4))
   \<and> (rwc_Read c 1 s = ([fia], None, s1) \<and> dec c (ByteV 0) s1 = (None, ByteV b, s2) \<and>
        dec c (Uint64V (Seq resp)) s2 = (None, Uint64V m', s3') \<and>
        dec c (StringV (Error resp)) s3' = (None, StringV str', s4') \<and> b \<noteq> 1 \<longrightarrow>
      spec_ReadResponseHeader c resp s =
        (Some (UnexpectedByteDescriptor 1 b), resp\<lparr>Seq := m', Error := str'\<rparr>, s4'))
   \<and> (rwc_Read c 1 s = ([x], None, s1) \<and> x \<noteq> fia \<longrightarrow>
      spec_ReadRequestHeader c req s = (Some (UnexpectedArrayDescriptor fia x), req, s1) \<and>
      spec_ReadResponseHeader c resp s = (Some (UnexpectedArrayDescriptor fia x), resp, s1))"
proof (intro conjI impI)
  assume "rwc_Read c 1 s = ([fia], None, s1) \<and> dec c (ByteV 0) s1 = (None, ByteV b, s2) \<and>
    dec c (Uint64V (Seq req)) s2 = (None, Uint64V m, s3) \<and>
    dec c (StringV (ServiceMethod req)) s3 = (None, StringV str, s4) \<and> b \<noteq> 0"
  then show "spec_ReadRequestHeader c req s =
        (Some (UnexpectedByteDescriptor 0 b), req\<lparr>Seq := m, ServiceMethod := str\<rparr>, s4)"
    by (simp add: spec_ReadRequestHeader_def parseCustomHeader_decoded)
next
  assume "rwc_Read c 1 s = ([fia], None, s1) \<and> dec c (ByteV 0) s1 = (None, ByteV b, s2) \<and>
        dec c (Uint64V (Seq resp)) s2 = (None, Uint64V m', s3') \<and>
        dec c (StringV (Error resp)) s3' = (None, StringV str', s4') \<and> b \<noteq> 1"
  then show "spec_ReadResponseHeader c resp s =
        (Some (UnexpectedByteDescriptor 1 b), resp\<lparr>Seq := m', Error := str'\<rparr>, s4')"
    by (simp add: spec_ReadResponseHeader_def parseCustomHeader_decoded)
next
  assume a: "rwc_Read c 1 s = ([x], None, s1) \<and> x \<noteq> fia"
  then have r: "rwc_Read c 1 s = ([x], None, s1)"
    and m: "None \<noteq> (None :: error option) \<or> length [x] \<noteq> 1 \<or> hd [x] \<noteq> fia"
    by simp_all
  show "spec_ReadRequestHeader c req s = (Some (UnexpectedArrayDescriptor fia x), req, s1)"
    by (simp add: spec_ReadRequestHeader_def parseCustomHeader_rejected [OF r m])
  show "spec_ReadResponseHeader c resp s = (Some (UnexpectedArrayDescriptor fia x), resp, s1)"
    by (simp add: spec_ReadResponseHeader_def parseCustomHeader_rejected [OF r m])
qed

theorem spec_header_mismatch_overwrites_witness:
  "rwc_Read (msgpack :: (unit, byte list) rpcCodec) 1 [0x94, 1, 9, 0xa2, 0x6e, 0x6f, 0xc0] =
     ([fia], None, [1, 9, 0xa2, 0x6e, 0x6f, 0xc0])
   \<and> dec (msgpack :: (unit, byte list) rpcCodec) (ByteV 0) [1, 9, 0xa2, 0x6e, 0x6f, 0xc0] =
     (None, ByteV 1, [9, 0xa2, 0x6e, 0x6f, 0xc0])
   \<and> dec (msgpack :: (unit, byte list) rpcCodec) (Uint64V 5) [9, 0xa2, 0x6e, 0x6f, 0xc0] =
     (None, Uint64V 9, [0xa2, 0x6e, 0x6f, 0xc0])
   \<and> dec (msgpack :: (unit, byte list) rpcCodec) (StringV ''old'') [0xa2, 0x6e, 0x6f, 0xc0] =
     (None, StringV ''no'', [0xc0])
   \<and> (1 :: byte) \<noteq> 0
   \<and> spec_ReadRequestHeader (msgpack :: (unit, byte list) rpcCodec)
       \<lparr>ServiceMethod = ''old'', Seq = 5\<rparr> [0x94, 1, 9, 0xa2, 0x6e, 0x6f, 0xc0] =
     (Some (UnexpectedByteDescriptor 0 1), \<lparr>ServiceMethod = ''no'', Seq = 9\<rparr>, [0xc0])
   \<and> rwc_Read (msgpack :: (unit, byte list) rpcCodec) 1 [0x94, 0, 9, 0xa2, 0x6e, 0x6f, 0x90] =
     ([fia], None, [0, 9, 0xa2, 0x6e, 0x6f, 0x90])
   \<and> dec (msgpack :: (unit, byte list) rpcCodec) (ByteV 0) [0, 9, 0xa2, 0x6e, 0x6f, 0x90] =
     (None, ByteV 0, [9, 0xa2, 0x6e, 0x6f, 0x90])
   \<and> dec (msgpack :: (unit, byte list) rpcCodec) (Uint64V 5) [9, 0xa2, 0x6e, 0x6f, 0x90] =
     (None, Uint64V 9, [0xa2, 0x6e, 0x6f, 0x90])
   \<and> dec (msgpack :: (unit, byte list) rpcCodec) (StringV ''old'') [0xa2, 0x6e, 0x6f, 0x90] =
     (None, StringV ''no'', [0x90])
   \<and> (0 :: byte) \<noteq> 1
   \<and> spec_ReadResponseHeader (msgpack :: (unit, byte list) rpcCodec)
       \<lparr>ServiceMethod = ''Add'', Seq = 5, Error = ''old''\<rparr>
       [0x94, 0, 9, 0xa2, 0x6e, 0x6f, 0x90] =
     (Some (UnexpectedByteDescriptor 1 0), \<lparr>ServiceMethod = ''Add'', Seq = 9, Error = ''no''\<rparr>,
      [0x90])
   \<and> rwc_Read (msgpack :: (unit, byte list) rpcCodec) 1 [0x93, 1, 9] = ([0x93], None, [1, 9])
   \<and> (0x93 :: byte) \<noteq> fia
   \<and> spec_ReadRequestHeader (msgpack :: (unit, byte list) rpcCodec)
       \<lparr>ServiceMethod = ''old'', Seq = 5\<rparr> [0x93, 1, 9] =
     (Some (UnexpectedArrayDescriptor 0x94 0x93), \<lparr>ServiceMethod = ''old'', Seq = 5\<rparr>, [1, 9])"
proof -
  let ?c = "msgpack :: (unit, byte list) rpcCodec"
  let ?req = "\<lparr>ServiceMethod = ''old'', Seq = 5 :: 64 word\<rparr>"
  let ?resp = "\<lparr>ServiceMethod = ''Add'', Seq = 5 :: 64 word, Error = ''old''\<rparr>"
  have r1: "rwc_Read ?c 1 [0x94, 1, 9, 0xa2, 0x6e, 0x6f, 0xc0] =
      ([fia], None, [1, 9, 0xa2, 0x6e, 0x6f, 0xc0])"
    and r2: "rwc_Read ?c 1 [0x94, 0, 9, 0xa2, 0x6e, 0x6f, 0x90] =
      ([fia], None, [0, 9, 0xa2, 0x6e, 0x6f, 0x90])"
    and r3: "rwc_Read ?c 1 [0x93, 1, 9] = ([0x93], None, [1, 9])"
    by (simp_all add: msgpack_def loopback_def fia_def)
  have d1: "dec ?c (ByteV 0) [1, 9, 0xa2, 0x6e, 0x6f, 0xc0] = (None, ByteV 1, [9, 0xa2, 0x6e, 0x6f, 0xc0])"
    and d2: "dec ?c (Uint64V 5) [9, 0xa2, 0x6e, 0x6f, 0xc0] = (None, Uint64V 9, [0xa2, 0x6e, 0x6f, 0xc0])"
    and d3: "dec ?c (StringV ''old'') [0xa2, 0x6e, 0x6f, 0xc0] = (None, StringV ''no'', [0xc0])"
    and d4: "dec ?c (ByteV 0) [0, 9, 0xa2, 0x6e, 0x6f, 0x90] = (None, ByteV 0, [9, 0xa2, 0x6e, 0x6f, 0x90])"
    and d5: "dec ?c (Uint64V 5) [9, 0xa2, 0x6e, 0x6f, 0x90] = (None, Uint64V 9, [0xa2, 0x6e, 0x6f, 0x90])"
    and d6: "dec ?c (StringV ''old'') [0xa2, 0x6e, 0x6f, 0x90] = (None, StringV ''no'', [0x90])"
    by (simp_all add: msgpack_def loopback_def char_of_byte_sample)
  have n1: "(1 :: byte) \<noteq> 0" and n2: "(0 :: byte) \<noteq> 1" and n3: "(0x93 :: byte) \<noteq> fia"
    by (simp_all add: fia_def)
  have a: "spec_ReadRequestHeader ?c ?req [0x94, 1, 9, 0xa2, 0x6e, 0x6f, 0xc0] =
      (Some (UnexpectedByteDescriptor 0 1), \<lparr>ServiceMethod = ''no'', Seq = 9\<rparr>, [0xc0])"
    using r1 d1 d2 d3 n1
      spec_header_mismatch_overwrites [where c = ?c and req = ?req and b = 1 and m = 9
        and str = "''no''" and s = "[0x94, 1, 9, 0xa2, 0x6e, 0x6f, 0xc0]"
        and ?s1.0 = "[1, 9, 0xa2, 0x6e, 0x6f, 0xc0]" and ?s2.0 = "[9, 0xa2, 0x6e, 0x6f, 0xc0]"
        and ?s3.0 = "[0xa2, 0x6e, 0x6f, 0xc0]" and ?s4.0 = "[0xc0]", THEN conjunct1]
    by simp
  have b: "spec_ReadResponseHeader ?c ?resp [0x94, 0, 9, 0xa2, 0x6e, 0x6f, 0x90] =
      (Some (UnexpectedByteDescriptor 1 0), \<lparr>ServiceMethod = ''Add'', Seq = 9, Error = ''no''\<rparr>,
       [0x90])"
    using r2 d4 d5 d6 n2
      spec_header_mismatch_overwrites [where c = ?c and resp = ?resp and b = 0 and m' = 9
        and str' = "''no''" and s = "[0x94, 0, 9, 0xa2, 0x6e, 0x6f, 0x90]"
        and ?s1.0 = "[0, 9, 0xa2, 0x6e, 0x6f, 0x90]" and ?s2.0 = "[9, 0xa2, 0x6e, 0x6f, 0x90]"
        and ?s3'.0 = "[0xa2, 0x6e, 0x6f, 0x90]" and ?s4'.0 = "[0x90]",
        THEN conjunct2, THEN conjunct1]
    by simp
  have c: "spec_ReadRequestHeader ?c ?req [0x93, 1, 9] =
      (Some (UnexpectedArrayDescriptor 0x94 0x93), ?req, [1, 9])"
    using r3 n3
      spec_header_mismatch_overwrites [where c = ?c and req = ?req and x = "0x93"
        and s = "[0x93, 1, 9]" and ?s1.0 = "[1, 9]", THEN conjunct2, THEN conjunct2]
    by (simp add: fia_def)
  from r1 d1 d2 d3 n1 a r2 d4 d5 d6 n2 b r3 n3 c show ?thesis by (intro conjI)
qed

end
